theory Spec2Isabelle
  imports Complex_Main
begin

section \<open>Data model (types.ts)\<close>

text \<open>
  \<^verbatim>\<open>type PieceColor = 'w' | 'b'\<close> and
  \<^verbatim>\<open>type PieceType = 'p' | 'n' | 'b' | 'r' | 'q' | 'k'\<close>.
\<close>

datatype PieceColor = White | Black

datatype PieceType = Pawn | Knight | Bishop | Rook | Queen | King

text \<open>
  \<^verbatim>\<open>interface Piece { type: PieceType; color: PieceColor }\<close>. The two fields are
  called \<open>ptype\<close> and \<open>pcolor\<close> here, since the engine's move object below has a
  \<open>color\<close> field of its own.
\<close>

record Piece =
  ptype :: PieceType
  pcolor :: PieceColor

text \<open>
  \<^verbatim>\<open>interface AIMoveResponse { move: string; explanation: string }\<close>
\<close>

record AIMoveResponse =
  move :: string
  explanation :: string

section \<open>The rules engine, as the controller uses it\<close>

text \<open>
  The controller imports \<^verbatim>\<open>Chess\<close> and \<^verbatim>\<open>Move\<close> from the chess.js library,
  which is not part of the repository. Its move object is the record \<open>ChessMove\<close>
  (the fields the controller reads: \<^verbatim>\<open>color\<close>, \<^verbatim>\<open>from\<close>, \<^verbatim>\<open>to\<close>,
  \<^verbatim>\<open>captured\<close>, \<^verbatim>\<open>san\<close>, with \<^verbatim>\<open>piece\<close> and \<^verbatim>\<open>promotion\<close>).
\<close>

record ChessMove =
  color :: PieceColor
  from_sq :: string
  to_sq :: string
  piece :: PieceType
  captured :: "PieceType option"
  promotion :: "PieceType option"
  san :: string

text \<open>
  The argument of \<^verbatim>\<open>makeMove\<close>:
  \<^verbatim>\<open>string | { from: string; to: string; promotion?: string }\<close>.
\<close>

datatype MoveData = San string | Coords string string "string option"

text \<open>
  A \<^verbatim>\<open>Chess\<close> object holds a position and the moves made on this object since it
  was constructed. The position is identified with its FEN string (what
  \<^verbatim>\<open>game.fen()\<close> returns and \<^verbatim>\<open>new Chess(fen)\<close> loads); each history entry keeps
  the move and the position it was made from, which is what \<^verbatim>\<open>undo()\<close> restores.
  The only strings the controller ever loads are those \<^verbatim>\<open>game.fen()\<close> has
  produced.
\<close>

record Chess =
  fen :: string
  history :: "(ChessMove \<times> string) list"

text \<open>
  The rules of chess themselves are a parameter: a record of the engine's answers on
  a position. \<open>rules_move f d\<close> is \<open>None\<close> when the engine refuses the move
  \<open>d\<close> in position \<open>f\<close> (chess.js returns \<^verbatim>\<open>null\<close> or throws, depending on
  its version; \<^verbatim>\<open>makeMove\<close> handles both), and otherwise the move object and the
  position after the move. \<open>rules_moves f\<close> lists the legal moves of \<open>f\<close>.
  A draw can depend on the moves made on the object (repetition), so
  \<open>rules_isDraw\<close> takes the whole object.
\<close>

record rules =
  rules_move :: "string \<Rightarrow> MoveData \<Rightarrow> (ChessMove \<times> string) option"
  rules_moves :: "string \<Rightarrow> ChessMove list"
  rules_get :: "string \<Rightarrow> string \<Rightarrow> Piece option"
  rules_turn :: "string \<Rightarrow> PieceColor"
  rules_isCheckmate :: "string \<Rightarrow> bool"
  rules_isDraw :: "Chess \<Rightarrow> bool"

text \<open>The standard starting position, which \<^verbatim>\<open>new Chess()\<close> sets up.\<close>

definition DEFAULT_POSITION :: string where
  "DEFAULT_POSITION = ''rnbqkbnr/pppppppp/8/8/8/8/PPPPPPPP/RNBQKBNR w KQkq - 0 1''"

text \<open>\<^verbatim>\<open>new Chess()\<close> and \<^verbatim>\<open>new Chess(fen)\<close>: a fresh object, with no history.\<close>

definition new_Chess :: Chess where
  "new_Chess = \<lparr>fen = DEFAULT_POSITION, history = []\<rparr>"

definition new_Chess_fen :: "string \<Rightarrow> Chess" where
  "new_Chess_fen f = \<lparr>fen = f, history = []\<rparr>"

text \<open>
  \<^verbatim>\<open>chess.move(moveData)\<close>: on success the object moves to the new position and
  the move is pushed on its history.
\<close>

definition Chess_move :: "rules \<Rightarrow> Chess \<Rightarrow> MoveData \<Rightarrow> (ChessMove \<times> Chess) option" where
  "Chess_move E g d =
     (case rules_move E (fen g) d of
        None \<Rightarrow> None
      | Some (m, f') \<Rightarrow> Some (m, \<lparr>fen = f', history = history g @ [(m, fen g)]\<rparr>))"

text \<open>
  \<^verbatim>\<open>chess.undo()\<close>: takes back the last move of the object's history and returns
  it; with an empty history it returns \<^verbatim>\<open>null\<close> and changes nothing.
\<close>

definition Chess_undo :: "Chess \<Rightarrow> ChessMove option \<times> Chess" where
  "Chess_undo g =
     (case rev (history g) of
        [] \<Rightarrow> (None, g)
      | (m, f) # _ \<Rightarrow> (Some m, \<lparr>fen = f, history = butlast (history g)\<rparr>))"

text \<open>
  \<^verbatim>\<open>chess.moves()\<close> (the legal moves in SAN), \<^verbatim>\<open>chess.moves({square, verbose: true})\<close>
  (the legal moves from one square), \<^verbatim>\<open>chess.history()\<close>, \<^verbatim>\<open>chess.get(square)\<close>,
  \<^verbatim>\<open>chess.turn()\<close> and the status predicates.
\<close>

definition Chess_moves :: "rules \<Rightarrow> Chess \<Rightarrow> string list" where
  "Chess_moves E g = map san (rules_moves E (fen g))"

definition Chess_moves_square :: "rules \<Rightarrow> Chess \<Rightarrow> string \<Rightarrow> ChessMove list" where
  "Chess_moves_square E g sq = filter (\<lambda>m. from_sq m = sq) (rules_moves E (fen g))"

definition Chess_history :: "Chess \<Rightarrow> string list" where
  "Chess_history g = map (\<lambda>e. san (fst e)) (history g)"

definition Chess_get :: "rules \<Rightarrow> Chess \<Rightarrow> string \<Rightarrow> Piece option" where
  "Chess_get E g sq = rules_get E (fen g) sq"

definition Chess_turn :: "rules \<Rightarrow> Chess \<Rightarrow> PieceColor" where
  "Chess_turn E g = rules_turn E (fen g)"

definition isCheckmate :: "rules \<Rightarrow> Chess \<Rightarrow> bool" where
  "isCheckmate E g = rules_isCheckmate E (fen g)"

definition isDraw :: "rules \<Rightarrow> Chess \<Rightarrow> bool" where
  "isDraw E g = rules_isDraw E g"

text \<open>
  chess.js: \<^verbatim>\<open>isGameOver()\<close> is checkmate, stalemate or draw, and its
  \<^verbatim>\<open>isDraw()\<close> includes stalemate.
\<close>

definition isGameOver :: "rules \<Rightarrow> Chess \<Rightarrow> bool" where
  "isGameOver E g = (isCheckmate E g \<or> isDraw E g)"

section \<open>The controller (App component)\<close>

text \<open>The seven \<^verbatim>\<open>useState\<close> cells of the component.\<close>

record App =
  game :: Chess
  selectedSquare :: "string option"
  validMoves :: "string list"
  isAiThinking :: bool
  aiAnalysis :: "string option"
  capturedByWhite :: "Piece list"
  capturedByBlack :: "Piece list"

definition initial_App :: App where
  "initial_App =
     \<lparr>game = new_Chess, selectedSquare = None, validMoves = [], isAiThinking = False,
      aiAnalysis = None, capturedByWhite = [], capturedByBlack = []\<rparr>"

definition resetGame :: "App \<Rightarrow> App" where
  "resetGame s =
     s\<lparr>game := new_Chess, selectedSquare := None, validMoves := [], aiAnalysis := None,
       capturedByWhite := [], capturedByBlack := []\<rparr>"

definition handleCapture :: "ChessMove \<Rightarrow> App \<Rightarrow> App" where
  "handleCapture m s =
     (case captured m of
        None \<Rightarrow> s
      | Some t \<Rightarrow>
          (let pc = \<lparr>ptype = t, pcolor = (if color m = White then Black else White)\<rparr>
           in if color m = White then s\<lparr>capturedByWhite := capturedByWhite s @ [pc]\<rparr>
              else s\<lparr>capturedByBlack := capturedByBlack s @ [pc]\<rparr>))"

text \<open>
  \<^verbatim>\<open>makeMove\<close> is a \<^verbatim>\<open>useCallback\<close> over \<^verbatim>\<open>game\<close>: it reads the \<^verbatim>\<open>game\<close> of
  the render that created it (the argument \<open>g\<close>) and writes the state cells of the
  component (\<open>s\<close>). A click handler runs in the latest render, where \<open>g\<close> is
  \<open>game s\<close>; the timer callback of \<^verbatim>\<open>triggerAiMove\<close> keeps the \<^verbatim>\<open>game\<close> of the
  render in which the button was pressed. The result is the returned boolean and the
  state after the call.
\<close>

definition makeMove :: "rules \<Rightarrow> Chess \<Rightarrow> App \<Rightarrow> MoveData \<Rightarrow> bool \<times> App" where
  "makeMove E g s moveData =
     (case Chess_move E (new_Chess_fen (fen g)) moveData of
        Some (m, gameCopy) \<Rightarrow>
          (True, (handleCapture m (s\<lparr>game := gameCopy\<rparr>))\<lparr>selectedSquare := None, validMoves := []\<rparr>)
      | None \<Rightarrow> (False, s))"

text \<open>
  The last block of \<^verbatim>\<open>onSquareClick\<close> ("Otherwise, select the piece"), which is
  reached from two places of the handler.
\<close>

definition selectPiece :: "rules \<Rightarrow> App \<Rightarrow> string \<Rightarrow> App" where
  "selectPiece E s square =
     (case Chess_get E (game s) square of
        Some pc \<Rightarrow>
          if pcolor pc = Chess_turn E (game s)
          then s\<lparr>selectedSquare := Some square,
                 validMoves := map to_sq (Chess_moves_square E (game s) square)\<rparr>
          else s\<lparr>selectedSquare := None, validMoves := []\<rparr>
      | None \<Rightarrow> s\<lparr>selectedSquare := None, validMoves := []\<rparr>)"

text \<open>
  \<^verbatim>\<open>if (selectedSquare)\<close> is a truthiness test: \<^verbatim>\<open>null\<close> and the empty string
  both fail it. A failed \<^verbatim>\<open>makeMove\<close> falls through to the selection block.
\<close>

definition onSquareClick :: "rules \<Rightarrow> App \<Rightarrow> string \<Rightarrow> App" where
  "onSquareClick E s square =
     (if isGameOver E (game s) \<or> isAiThinking s then s
      else (case selectedSquare s of
              None \<Rightarrow> selectPiece E s square
            | Some sel \<Rightarrow>
                if sel = [] then selectPiece E s square
                else if sel = square then s\<lparr>selectedSquare := None, validMoves := []\<rparr>
                else (case makeMove E (game s) s (Coords sel square (Some ''q'')) of
                        (True, s') \<Rightarrow> s'
                      | (False, s') \<Rightarrow> selectPiece E s' square)))"

definition undoMove :: "App \<Rightarrow> App" where
  "undoMove s =
     (let gameCopy = snd (Chess_undo (new_Chess_fen (fen (game s))))
      in s\<lparr>game := gameCopy, aiAnalysis := None\<rparr>)"

section \<open>Numbers\<close>

text \<open>
  A JavaScript number is an IEEE 754 double. The program multiplies the result of
  \<^verbatim>\<open>Math.random()\<close> by the length of an array and takes \<^verbatim>\<open>Math.floor\<close> of the
  product, so only finite doubles that are not negative occur: \<open>m \<cdot> 2\<^sup>e\<close> with a
  significand \<open>m\<close> below \<open>2\<^sup>5\<^sup>3\<close> and an exponent \<open>e\<close> from -1074 on.
\<close>

record double =
  mantissa :: nat
  exponent :: int

definition is_double :: "double \<Rightarrow> bool" where
  "is_double x = (mantissa x < 2 ^ 53 \<and> - 1074 \<le> exponent x \<and> exponent x \<le> 971)"

definition double_value :: "double \<Rightarrow> real" where
  "double_value x =
     (if 0 \<le> exponent x then real (mantissa x * 2 ^ nat (exponent x))
      else real (mantissa x) / 2 ^ nat (- exponent x))"

text \<open>The number of binary digits of a natural number.\<close>

fun bits :: "nat \<Rightarrow> nat" where
  "bits n = (if n = 0 then 0 else Suc (bits (n div 2)))"

text \<open>
  \<open>M / 2\<^sup>s\<^sup>h\<close> rounded to the nearest integer, a tie going to the even one: the
  rounding of IEEE 754 arithmetic.
\<close>

definition round_half_even :: "nat \<Rightarrow> nat \<Rightarrow> nat" where
  "round_half_even M sh =
     (if sh = 0 then M
      else if 2 ^ (sh - 1) < M mod 2 ^ sh \<or> (M mod 2 ^ sh = 2 ^ (sh - 1) \<and> odd (M div 2 ^ sh))
      then M div 2 ^ sh + 1
      else M div 2 ^ sh)"

text \<open>
  The product \<^verbatim>\<open>x * n\<close> of a double and an array length (below \<open>2\<^sup>3\<^sup>2\<close>, hence a
  double itself): the exact product \<open>m \<cdot> n \<cdot> 2\<^sup>e\<close>, its significand rounded to 53
  binary digits. With \<open>x\<close> below 1 the product neither overflows nor loses digits to
  the smallest exponent.
\<close>

definition double_times :: "double \<Rightarrow> nat \<Rightarrow> double" where
  "double_times x n =
     (let M = mantissa x * n; sh = bits M - 53
      in \<lparr>mantissa = round_half_even M sh, exponent = exponent x + int sh\<rparr>)"

text \<open>\<^verbatim>\<open>Math.floor\<close> of a double that is not negative.\<close>

definition Math_floor :: "double \<Rightarrow> nat" where
  "Math_floor x =
     (if 0 \<le> exponent x then mantissa x * 2 ^ nat (exponent x)
      else mantissa x div 2 ^ nat (- exponent x))"

section \<open>AI move orchestration\<close>

text \<open>
  The outcome of awaiting a promise: it is rejected (\<open>Raised\<close>) or it resolves to a
  value.
\<close>

datatype 'a outcome = Raised | Returned 'a

text \<open>
  The callback that \<^verbatim>\<open>triggerAiMove\<close> hands to \<^verbatim>\<open>setTimeout\<close>. \<open>g\<close> is the
  \<^verbatim>\<open>game\<close> the callback closed over, \<open>s\<close> the state when the timer fires, and
  \<open>x\<close> the double \<^verbatim>\<open>Math.random()\<close> returns. \<^verbatim>\<open>randomMoves[i]\<close> outside the
  array is \<^verbatim>\<open>undefined\<close>, which the engine refuses as a move, so \<^verbatim>\<open>makeMove\<close>
  returns false and changes nothing.
\<close>

definition aiTimeout :: "rules \<Rightarrow> Chess \<Rightarrow> App \<Rightarrow> string \<Rightarrow> double \<Rightarrow> App" where
  "aiTimeout E g s aiMove x =
     (case makeMove E g s (San aiMove) of
        (True, s1) \<Rightarrow> s1\<lparr>isAiThinking := False\<rparr>
      | (False, s1) \<Rightarrow>
          (let s2 = s1\<lparr>aiAnalysis := Some ''AI suggested an illegal move. Fallback logic triggered.''\<rparr>;
               randomMoves = Chess_moves E g;
               i = Math_floor (double_times x (length randomMoves));
               s3 = (if length randomMoves > 0
                     then (if i < length randomMoves
                           then snd (makeMove E g s2 (San (randomMoves ! i)))
                           else s2)
                     else s2)
           in s3\<lparr>isAiThinking := False\<rparr>))"

text \<open>
  \<^verbatim>\<open>triggerAiMove\<close> runs in three steps, with the event loop free in between: the
  click (the guard, then the "thinking" flag and the placeholder text), the
  continuation after \<^verbatim>\<open>await getBestMove(fen, history)\<close>, and the timer callback.
  \<open>reply\<close> is the outcome of the await, of the type \<^verbatim>\<open>getBestMove\<close> declares.
\<close>

definition aiBegin :: "App \<Rightarrow> App" where
  "aiBegin s = s\<lparr>isAiThinking := True, aiAnalysis := Some ''Analyzing board state...''\<rparr>"

text \<open>
  The continuation up to the point where the timer is set: the state it leaves, and
  the move the timer callback will try, if a timer was set.
\<close>

definition aiReply :: "App \<Rightarrow> AIMoveResponse outcome \<Rightarrow> App \<times> string option" where
  "aiReply s reply =
     (case reply of
        Returned aiResponse \<Rightarrow>
          if move aiResponse \<noteq> []
          then (s\<lparr>aiAnalysis := Some (explanation aiResponse)\<rparr>, Some (move aiResponse))
          else (s\<lparr>isAiThinking := False, aiAnalysis := Some ''AI couldn't find a move.''\<rparr>, None)
      | Raised \<Rightarrow>
          (s\<lparr>isAiThinking := False, aiAnalysis := Some ''Error communicating with AI.''\<rparr>, None))"

text \<open>
  The whole of \<^verbatim>\<open>triggerAiMove\<close>, with no other event between its steps: the timer
  callback then finds the \<^verbatim>\<open>game\<close> of the click.
\<close>

definition triggerAiMove :: "rules \<Rightarrow> App \<Rightarrow> AIMoveResponse outcome \<Rightarrow> double \<Rightarrow> App" where
  "triggerAiMove E s reply x =
     (if isGameOver E (game s) \<or> isAiThinking s then s
      else (case aiReply (aiBegin s) reply of
              (s', Some aiMove) \<Rightarrow> aiTimeout E (game s) s' aiMove x
            | (s', None) \<Rightarrow> s'))"

section \<open>The AI move advisor (getBestMove)\<close>

text \<open>
  The reply of the service is arbitrary text. A JavaScript string is a sequence of
  UTF-16 code units, so the reply text, and the strings inside the JSON value parsed
  from it, are lists of code units (numbers below 65536). \<open>js\<close> gives the code
  units of an ASCII literal.
\<close>

type_synonym js_string = "nat list"

definition js :: "string \<Rightarrow> js_string" where
  "js s = map of_char s"

text \<open>
  What \<^verbatim>\<open>JSON.parse\<close> returns: a JSON value. A number is kept as its numeral and a
  string as the text between its quotes (escape sequences are checked, not decoded),
  so a string value is empty exactly when the JavaScript string is. An object is the
  list of its members in source order.
\<close>

datatype json =
  JNull | JBool bool | JNum js_string | JStr js_string | JArr "json list"
  | JObj "(js_string \<times> json) list"

text \<open>
  \<^verbatim>\<open>response.text.trim()\<close> removes white space and line terminators at both ends
  (ECMAScript, WhiteSpace and LineTerminator): U+0009 to U+000D, U+0020, U+00A0,
  U+1680, U+2000 to U+200A, U+2028, U+2029, U+202F, U+205F, U+3000 and U+FEFF. All
  of them are single code units.
\<close>

definition is_js_space :: "nat \<Rightarrow> bool" where
  "is_js_space u =
     ((9 \<le> u \<and> u \<le> 13) \<or> u = 32 \<or> u = 160 \<or> u = 5760 \<or> (8192 \<le> u \<and> u \<le> 8202)
      \<or> u = 8232 \<or> u = 8233 \<or> u = 8239 \<or> u = 8287 \<or> u = 12288 \<or> u = 65279)"

definition trim :: "js_string \<Rightarrow> js_string" where
  "trim s = rev (dropWhile is_js_space (rev (dropWhile is_js_space s)))"

text \<open>
  \<^verbatim>\<open>getBestMove\<close> from the reply of the service on: \<open>response\<close> is the outcome of
  \<^verbatim>\<open>await model\<close>, and for a request that succeeded \<^verbatim>\<open>response.text\<close>, which is
  the text of the reply or \<^verbatim>\<open>undefined\<close> when the reply has none. The await and
  \<^verbatim>\<open>response.text.trim()\<close> are outside the \<^verbatim>\<open>try\<close>: a failed request and a reply
  without text both reject the promise \<^verbatim>\<open>getBestMove\<close> returns. \<open>parse\<close> is
  \<^verbatim>\<open>JSON.parse\<close>, with \<open>None\<close> for a thrown SyntaxError.
  \<^verbatim>\<open>as AIMoveResponse\<close> is a type assertion and checks nothing at run time.
\<close>

definition getBestMove ::
  "(js_string \<Rightarrow> json option) \<Rightarrow> js_string option outcome \<Rightarrow> json outcome" where
  "getBestMove parse response =
     (case response of
        Raised \<Rightarrow> Raised
      | Returned None \<Rightarrow> Raised
      | Returned (Some text) \<Rightarrow>
          (let jsonStr = trim text
           in case parse jsonStr of
                Some v \<Rightarrow> Returned v
              | None \<Rightarrow>
                  Returned (JObj [(js ''move'', JStr []),
                    (js ''explanation'', JStr (js ''I couldn't calculate a move right now.''))])))"

subsection \<open>A JSON parser\<close>

text \<open>
  The grammar of JSON (ECMA-404), to run \<^verbatim>\<open>getBestMove\<close> on concrete texts.
  Code units: 34 is the double quote, 92 the backslash, 44 the comma, 58 the colon,
  91 and 93 the brackets, 123 and 125 the braces, 45, 43 and 46 the minus sign, the
  plus sign and the point, 48 to 57 the digits, 69 and 101 the letters E and e, 117
  the letter u.
\<close>

definition is_json_ws :: "nat \<Rightarrow> bool" where
  "is_json_ws u = (u = 32 \<or> u = 9 \<or> u = 10 \<or> u = 13)"

definition skip_ws :: "js_string \<Rightarrow> js_string" where
  "skip_ws s = dropWhile is_json_ws s"

definition is_digit :: "nat \<Rightarrow> bool" where
  "is_digit u = (48 \<le> u \<and> u \<le> 57)"

definition is_hex :: "nat \<Rightarrow> bool" where
  "is_hex u = (is_digit u \<or> (65 \<le> u \<and> u \<le> 70) \<or> (97 \<le> u \<and> u \<le> 102))"

text \<open>
  The rest of a string after its opening quote: the text up to the closing quote, and
  what follows it.
\<close>

fun scan_string :: "js_string \<Rightarrow> (js_string \<times> js_string) option" where
  "scan_string [] = None"
| "scan_string (c # cs) =
     (if c = 34 then Some ([], cs)
      else if c < 32 then None
      else if c = 92 then
        (case cs of
           [] \<Rightarrow> None
         | e # cs' \<Rightarrow>
             if e = 34 \<or> e = 92 \<or> e \<in> set (js ''/bfnrt'')
             then map_option (apfst (\<lambda>t. c # e # t)) (scan_string cs')
             else if e = 117 \<and> length (takeWhile is_hex (take 4 cs')) = 4
             then map_option (apfst (\<lambda>t. c # e # take 4 cs' @ t)) (scan_string (drop 4 cs'))
             else None)
      else map_option (apfst (\<lambda>t. c # t)) (scan_string cs))"

definition scan_digits :: "js_string \<Rightarrow> (js_string \<times> js_string) option" where
  "scan_digits s =
     (if takeWhile is_digit s = [] then None
      else Some (takeWhile is_digit s, dropWhile is_digit s))"

definition scan_int :: "js_string \<Rightarrow> (js_string \<times> js_string) option" where
  "scan_int s =
     (case s of
        [] \<Rightarrow> None
      | c # r \<Rightarrow> if c = 48 then Some ([c], r) else scan_digits s)"

definition scan_frac :: "js_string \<Rightarrow> (js_string \<times> js_string) option" where
  "scan_frac s =
     (case s of
        [] \<Rightarrow> Some ([], s)
      | c # r \<Rightarrow>
          if c = 46 then map_option (apfst (\<lambda>t. c # t)) (scan_digits r)
          else Some ([], s))"

definition scan_exp :: "js_string \<Rightarrow> (js_string \<times> js_string) option" where
  "scan_exp s =
     (case s of
        [] \<Rightarrow> Some ([], s)
      | c # r \<Rightarrow>
          if c = 101 \<or> c = 69 then
            (case r of
               [] \<Rightarrow> None
             | d # r' \<Rightarrow>
                 if d = 43 \<or> d = 45
                 then map_option (apfst (\<lambda>t. c # d # t)) (scan_digits r')
                 else map_option (apfst (\<lambda>t. c # t)) (scan_digits r))
          else Some ([], s))"

definition scan_number :: "js_string \<Rightarrow> (js_string \<times> js_string) option" where
  "scan_number s =
     (let sg = (if take 1 s = [45] then [45] else []);
          s0 = drop (length sg) s
      in case scan_int s0 of
           None \<Rightarrow> None
         | Some (i, s1) \<Rightarrow>
             (case scan_frac s1 of
                None \<Rightarrow> None
              | Some (f, s2) \<Rightarrow>
                  (case scan_exp s2 of
                     None \<Rightarrow> None
                   | Some (e, s3) \<Rightarrow> Some (sg @ i @ f @ e, s3))))"

text \<open>
  A value, the elements of an array after its opening bracket, and the members of an
  object after its opening brace. The first argument bounds the number of nested
  calls; every call but the first follows a consumed code unit or a consumed value,
  so \<open>2 * length s + 2\<close> calls parse any text \<open>s\<close>.
\<close>

fun parse_value :: "nat \<Rightarrow> js_string \<Rightarrow> (json \<times> js_string) option"
  and parse_elements :: "nat \<Rightarrow> js_string \<Rightarrow> (json list \<times> js_string) option"
  and parse_members :: "nat \<Rightarrow> js_string \<Rightarrow> ((js_string \<times> json) list \<times> js_string) option"
where
  "parse_value 0 s = None"
| "parse_value (Suc n) s =
     (case skip_ws s of
        [] \<Rightarrow> None
      | c # cs \<Rightarrow>
          if c = 123 then
            (if take 1 (skip_ws cs) = [125] then Some (JObj [], drop 1 (skip_ws cs))
             else map_option (apfst JObj) (parse_members n cs))
          else if c = 91 then
            (if take 1 (skip_ws cs) = [93] then Some (JArr [], drop 1 (skip_ws cs))
             else map_option (apfst JArr) (parse_elements n cs))
          else if c = 34 then map_option (apfst JStr) (scan_string cs)
          else if take 4 (c # cs) = js ''true'' then Some (JBool True, drop 3 cs)
          else if take 5 (c # cs) = js ''false'' then Some (JBool False, drop 4 cs)
          else if take 4 (c # cs) = js ''null'' then Some (JNull, drop 3 cs)
          else map_option (apfst JNum) (scan_number (c # cs)))"
| "parse_elements 0 s = None"
| "parse_elements (Suc n) s =
     (case parse_value n s of
        None \<Rightarrow> None
      | Some (v, r) \<Rightarrow>
          (case skip_ws r of
             [] \<Rightarrow> None
           | c # cs \<Rightarrow>
               if c = 44 then map_option (apfst (\<lambda>vs. v # vs)) (parse_elements n cs)
               else if c = 93 then Some ([v], cs)
               else None))"
| "parse_members 0 s = None"
| "parse_members (Suc n) s =
     (case skip_ws s of
        [] \<Rightarrow> None
      | q # cs \<Rightarrow>
          if q = 34 then
            (case scan_string cs of
               None \<Rightarrow> None
             | Some (k, r) \<Rightarrow>
                 (case skip_ws r of
                    [] \<Rightarrow> None
                  | d # r' \<Rightarrow>
                      if d = 58 then
                        (case parse_value n r' of
                           None \<Rightarrow> None
                         | Some (v, r'') \<Rightarrow>
                             (case skip_ws r'' of
                                [] \<Rightarrow> None
                              | e # t \<Rightarrow>
                                  if e = 44 then
                                    map_option (apfst (\<lambda>ms. (k, v) # ms)) (parse_members n t)
                                  else if e = 125 then Some ([(k, v)], t)
                                  else None))
                      else None))
          else None)"

text \<open>\<^verbatim>\<open>JSON.parse(text)\<close>: one value, with white space around it and nothing else.\<close>

definition JSON_parse :: "js_string \<Rightarrow> json option" where
  "JSON_parse s =
     (case parse_value (2 * length s + 2) s of
        None \<Rightarrow> None
      | Some (v, r) \<Rightarrow> if skip_ws r = [] then Some v else None)"

section \<open>Reachable states and the selection invariant\<close>

text \<open>
  The invariant of the data model: a selected square holds a piece of the side to
  move.
\<close>

definition selection_ok :: "rules \<Rightarrow> App \<Rightarrow> bool" where
  "selection_ok E s =
     (case selectedSquare s of
        None \<Rightarrow> True
      | Some sq \<Rightarrow>
          (case Chess_get E (game s) sq of
             None \<Rightarrow> False
           | Some pc \<Rightarrow> pcolor pc = Chess_turn E (game s)))"

text \<open>
  The states the component can be in: the initial state, and the state after any
  operation on such a state. Besides the whole of \<^verbatim>\<open>triggerAiMove\<close>, its three steps
  are operations of their own, so that a reset or an undo between the click and the
  timer is covered: the timer callback then works on the \<^verbatim>\<open>game\<close> of an earlier
  state \<open>s0\<close>.
\<close>

inductive reachable :: "rules \<Rightarrow> App \<Rightarrow> bool" for E :: rules where
  start: "reachable E initial_App"
| click: "reachable E s \<Longrightarrow> reachable E (onSquareClick E s square)"
| apply_move: "reachable E s \<Longrightarrow> reachable E (snd (makeMove E (game s) s moveData))"
| undo: "reachable E s \<Longrightarrow> reachable E (undoMove s)"
| reset: "reachable E s \<Longrightarrow> reachable E (resetGame s)"
| ai_move: "reachable E s \<Longrightarrow> reachable E (triggerAiMove E s reply x)"
| ai_begin: "reachable E s \<Longrightarrow> \<not> isGameOver E (game s) \<Longrightarrow> \<not> isAiThinking s \<Longrightarrow>
    reachable E (aiBegin s)"
| ai_reply: "reachable E s \<Longrightarrow> reachable E (fst (aiReply s reply))"
| ai_timer: "reachable E s0 \<Longrightarrow> reachable E s \<Longrightarrow>
    reachable E (aiTimeout E (game s0) s aiMove x)"

section \<open>A fragment of the rules of chess\<close>

text \<open>
  The theorems below hold for every engine \<open>E\<close>. To run the controller on concrete
  games, \<open>demo\<close> answers as chess.js does on three positions: the starting position
  (twenty legal moves), a position where White's king can take a pawn (three legal
  moves), and a position with the two kings only (one legal move, and a draw by
  insufficient material). The board and the side to move are read off the FEN string;
  the legal moves of the three positions are tabulated, in the order chess.js lists
  them and with the FEN strings of its version 1 (the en-passant field is set only
  when a capture en passant is possible). No other request is accepted.
\<close>

definition piece_of_char :: "char \<Rightarrow> Piece option" where
  "piece_of_char c =
     (if c = CHR ''p'' then Some \<lparr>ptype = Pawn, pcolor = Black\<rparr>
      else if c = CHR ''n'' then Some \<lparr>ptype = Knight, pcolor = Black\<rparr>
      else if c = CHR ''b'' then Some \<lparr>ptype = Bishop, pcolor = Black\<rparr>
      else if c = CHR ''r'' then Some \<lparr>ptype = Rook, pcolor = Black\<rparr>
      else if c = CHR ''q'' then Some \<lparr>ptype = Queen, pcolor = Black\<rparr>
      else if c = CHR ''k'' then Some \<lparr>ptype = King, pcolor = Black\<rparr>
      else if c = CHR ''P'' then Some \<lparr>ptype = Pawn, pcolor = White\<rparr>
      else if c = CHR ''N'' then Some \<lparr>ptype = Knight, pcolor = White\<rparr>
      else if c = CHR ''B'' then Some \<lparr>ptype = Bishop, pcolor = White\<rparr>
      else if c = CHR ''R'' then Some \<lparr>ptype = Rook, pcolor = White\<rparr>
      else if c = CHR ''Q'' then Some \<lparr>ptype = Queen, pcolor = White\<rparr>
      else if c = CHR ''K'' then Some \<lparr>ptype = King, pcolor = White\<rparr>
      else None)"

text \<open>
  The squares of the board, rank 8 first and file a first within a rank, as the first
  field of the FEN string lists them: a digit (character codes 49 to 56) stands for
  that many empty squares. A square is a file letter (codes 97 to 104) and a rank
  digit.
\<close>

fun fen_squares :: "string \<Rightarrow> Piece option list" where
  "fen_squares [] = []"
| "fen_squares (c # cs) =
     (if c = CHR '' '' then []
      else if c = CHR ''/'' then fen_squares cs
      else if (49::nat) \<le> of_char c \<and> of_char c \<le> (56::nat)
      then replicate (of_char c - 48) None @ fen_squares cs
      else piece_of_char c # fen_squares cs)"

definition fen_get :: "string \<Rightarrow> string \<Rightarrow> Piece option" where
  "fen_get f sq =
     (case sq of
        [file, rank] \<Rightarrow>
          if (97::nat) \<le> of_char file \<and> of_char file \<le> (104::nat)
             \<and> (49::nat) \<le> of_char rank \<and> of_char rank \<le> (56::nat)
          then (let i = (56 - of_char rank) * 8 + (of_char file - 97)
                in if i < length (fen_squares f) then fen_squares f ! i else None)
          else None
      | _ \<Rightarrow> None)"

definition fen_turn :: "string \<Rightarrow> PieceColor" where
  "fen_turn f =
     (case dropWhile (\<lambda>c. c \<noteq> CHR '' '') f of
        _ # t # _ \<Rightarrow> if t = CHR ''b'' then Black else White
      | _ \<Rightarrow> White)"

text \<open>Only the two kings on the board: the draw that \<open>demo\<close> knows.\<close>

definition fen_bare_kings :: "string \<Rightarrow> bool" where
  "fen_bare_kings f =
     (filter (\<lambda>c. c \<noteq> None) (fen_squares f) =
        [Some \<lparr>ptype = King, pcolor = Black\<rparr>, Some \<lparr>ptype = King, pcolor = White\<rparr>]
      \<or> filter (\<lambda>c. c \<noteq> None) (fen_squares f) =
        [Some \<lparr>ptype = King, pcolor = White\<rparr>, Some \<lparr>ptype = King, pcolor = Black\<rparr>])"

text \<open>
  A row of the table: the move in SAN, its origin and destination, the piece moved,
  the piece taken, and the position after the move.
\<close>

type_synonym demo_row = "string \<times> string \<times> string \<times> PieceType \<times> PieceType option \<times> string"

definition pawn_position :: string where
  "pawn_position = ''7k/8/8/8/8/8/1p6/K7 w - - 0 1''"

definition kings_position :: string where
  "kings_position = ''8/8/8/8/8/8/2k5/K7 w - - 0 1''"

definition demo_table :: "(string \<times> demo_row list) list" where
  "demo_table =
   [(DEFAULT_POSITION,
     [
      (''a3'', ''a2'', ''a3'', Pawn, None, ''rnbqkbnr/pppppppp/8/8/8/P7/1PPPPPPP/RNBQKBNR b KQkq - 0 1''),
      (''a4'', ''a2'', ''a4'', Pawn, None, ''rnbqkbnr/pppppppp/8/8/P7/8/1PPPPPPP/RNBQKBNR b KQkq - 0 1''),
      (''b3'', ''b2'', ''b3'', Pawn, None, ''rnbqkbnr/pppppppp/8/8/8/1P6/P1PPPPPP/RNBQKBNR b KQkq - 0 1''),
      (''b4'', ''b2'', ''b4'', Pawn, None, ''rnbqkbnr/pppppppp/8/8/1P6/8/P1PPPPPP/RNBQKBNR b KQkq - 0 1''),
      (''c3'', ''c2'', ''c3'', Pawn, None, ''rnbqkbnr/pppppppp/8/8/8/2P5/PP1PPPPP/RNBQKBNR b KQkq - 0 1''),
      (''c4'', ''c2'', ''c4'', Pawn, None, ''rnbqkbnr/pppppppp/8/8/2P5/8/PP1PPPPP/RNBQKBNR b KQkq - 0 1''),
      (''d3'', ''d2'', ''d3'', Pawn, None, ''rnbqkbnr/pppppppp/8/8/8/3P4/PPP1PPPP/RNBQKBNR b KQkq - 0 1''),
      (''d4'', ''d2'', ''d4'', Pawn, None, ''rnbqkbnr/pppppppp/8/8/3P4/8/PPP1PPPP/RNBQKBNR b KQkq - 0 1''),
      (''e3'', ''e2'', ''e3'', Pawn, None, ''rnbqkbnr/pppppppp/8/8/8/4P3/PPPP1PPP/RNBQKBNR b KQkq - 0 1''),
      (''e4'', ''e2'', ''e4'', Pawn, None, ''rnbqkbnr/pppppppp/8/8/4P3/8/PPPP1PPP/RNBQKBNR b KQkq - 0 1''),
      (''f3'', ''f2'', ''f3'', Pawn, None, ''rnbqkbnr/pppppppp/8/8/8/5P2/PPPPP1PP/RNBQKBNR b KQkq - 0 1''),
      (''f4'', ''f2'', ''f4'', Pawn, None, ''rnbqkbnr/pppppppp/8/8/5P2/8/PPPPP1PP/RNBQKBNR b KQkq - 0 1''),
      (''g3'', ''g2'', ''g3'', Pawn, None, ''rnbqkbnr/pppppppp/8/8/8/6P1/PPPPPP1P/RNBQKBNR b KQkq - 0 1''),
      (''g4'', ''g2'', ''g4'', Pawn, None, ''rnbqkbnr/pppppppp/8/8/6P1/8/PPPPPP1P/RNBQKBNR b KQkq - 0 1''),
      (''h3'', ''h2'', ''h3'', Pawn, None, ''rnbqkbnr/pppppppp/8/8/8/7P/PPPPPPP1/RNBQKBNR b KQkq - 0 1''),
      (''h4'', ''h2'', ''h4'', Pawn, None, ''rnbqkbnr/pppppppp/8/8/7P/8/PPPPPPP1/RNBQKBNR b KQkq - 0 1''),
      (''Na3'', ''b1'', ''a3'', Knight, None, ''rnbqkbnr/pppppppp/8/8/8/N7/PPPPPPPP/R1BQKBNR b KQkq - 1 1''),
      (''Nc3'', ''b1'', ''c3'', Knight, None, ''rnbqkbnr/pppppppp/8/8/8/2N5/PPPPPPPP/R1BQKBNR b KQkq - 1 1''),
      (''Nf3'', ''g1'', ''f3'', Knight, None, ''rnbqkbnr/pppppppp/8/8/8/5N2/PPPPPPPP/RNBQKB1R b KQkq - 1 1''),
      (''Nh3'', ''g1'', ''h3'', Knight, None, ''rnbqkbnr/pppppppp/8/8/8/7N/PPPPPPPP/RNBQKB1R b KQkq - 1 1'')]),
    (pawn_position,
     [(''Ka2'', ''a1'', ''a2'', King, None, ''7k/8/8/8/8/8/Kp6/8 b - - 1 1''),
      (''Kxb2'', ''a1'', ''b2'', King, Some Pawn, ''7k/8/8/8/8/8/1K6/8 b - - 0 1''),
      (''Kb1'', ''a1'', ''b1'', King, None, ''7k/8/8/8/8/8/1p6/1K6 b - - 1 1'')]),
    (kings_position,
     [(''Ka2'', ''a1'', ''a2'', King, None, ''8/8/8/8/8/8/K1k5/8 b - - 1 1'')])]"

definition demo_rows :: "string \<Rightarrow> demo_row list" where
  "demo_rows f = (case map_of demo_table f of None \<Rightarrow> [] | Some rs \<Rightarrow> rs)"

definition demo_result :: "string \<Rightarrow> demo_row \<Rightarrow> ChessMove \<times> string" where
  "demo_result f r =
     (case r of (s, a, b, pt, cap, f') \<Rightarrow>
        (\<lparr>color = fen_turn f, from_sq = a, to_sq = b, piece = pt, captured = cap,
          promotion = None, san = s\<rparr>, f'))"

text \<open>
  A move is asked for by its SAN or by its two squares; no move of the table is a
  promotion, and the engine ignores the \<^verbatim>\<open>promotion\<close> field for such moves.
\<close>

definition demo_move :: "string \<Rightarrow> MoveData \<Rightarrow> (ChessMove \<times> string) option" where
  "demo_move f d =
     map_option (demo_result f)
       (case d of
          San s \<Rightarrow> find (\<lambda>(s', a, b, r). s' = s) (demo_rows f)
        | Coords x y pr \<Rightarrow> find (\<lambda>(s', a, b, r). a = x \<and> b = y) (demo_rows f))"

definition demo :: rules where
  "demo =
     \<lparr>rules_move = demo_move,
      rules_moves = (\<lambda>f. map (\<lambda>r. fst (demo_result f r)) (demo_rows f)),
      rules_get = fen_get,
      rules_turn = fen_turn,
      rules_isCheckmate = (\<lambda>f. False),
      rules_isDraw = (\<lambda>g. fen_bare_kings (fen g))\<rparr>"

section \<open>Facts about the operations\<close>

lemma makeMove_refused:
  "rules_move E (fen g) d = None \<Longrightarrow> makeMove E g s d = (False, s)"
  by (simp add: makeMove_def Chess_move_def new_Chess_fen_def)

lemma makeMove_accepted:
  "rules_move E (fen g) d = Some (m, f') \<Longrightarrow>
   makeMove E g s d =
     (True, (handleCapture m (s\<lparr>game := \<lparr>fen = f', history = [(m, fen g)]\<rparr>\<rparr>))
              \<lparr>selectedSquare := None, validMoves := []\<rparr>)"
  by (simp add: makeMove_def Chess_move_def new_Chess_fen_def)

lemma makeMove_cases:
  "makeMove E g s d = (False, s)
   \<or> (fst (makeMove E g s d) \<and> selectedSquare (snd (makeMove E g s d)) = None)"
  by (cases "rules_move E (fen g) d")
     (auto simp: makeMove_refused makeMove_accepted)

text \<open>
  The copy that \<^verbatim>\<open>undoMove\<close> makes is loaded from the FEN string alone, so it has
  no move to take back: the position stays and the history is emptied.
\<close>

lemma undoMove_eq:
  "undoMove s = s\<lparr>game := \<lparr>fen = fen (game s), history = []\<rparr>, aiAnalysis := None\<rparr>"
  by (simp add: undoMove_def Chess_undo_def new_Chess_fen_def)

section \<open>Facts about doubles\<close>

declare bits.simps [simp del]

lemma bits_bounds: "0 < n \<Longrightarrow> 2 ^ (bits n - 1) \<le> n \<and> n < 2 ^ bits n"
proof (induction n rule: bits.induct)
  case (1 n)
  show ?case
  proof (cases "n div 2 = 0")
    case True
    then have n: "n = Suc 0" using "1.prems" by (simp add: div_eq_0_iff)
    have "bits (Suc 0) = Suc 0"
      by (simp add: bits.simps [of "Suc 0"] bits.simps [of 0])
    then show ?thesis using n by simp
  next
    case False
    then have ih: "2 ^ (bits (n div 2) - 1) \<le> n div 2 \<and> n div 2 < 2 ^ bits (n div 2)"
      using "1.IH" "1.prems" by simp
    have pos: "0 < bits (n div 2)"
      using False by (simp add: bits.simps [of "n div 2"])
    have b: "bits n = Suc (bits (n div 2))"
      using "1.prems" by (simp add: bits.simps [of n])
    have lo: "(2::nat) ^ (bits n - 1) = 2 * 2 ^ (bits (n div 2) - 1)"
      using pos b by (cases "bits (n div 2)") simp_all
    have hi: "(2::nat) ^ bits n = 2 * (2 * 2 ^ (bits (n div 2) - 1))"
      using pos b by (cases "bits (n div 2)") simp_all
    have d1: "2 * (n div 2) \<le> n" and d2: "n < 2 * (n div 2) + 2"
      by presburger+
    have p1: "2 ^ (bits (n div 2) - 1) \<le> n div 2"
      and p2: "n div 2 < 2 * 2 ^ (bits (n div 2) - 1)"
      using ih pos by (cases "bits (n div 2)"; simp)+
    have "(2::nat) ^ (bits n - 1) \<le> n"
      using lo p1 d1 by linarith
    moreover have "n < 2 ^ bits n"
      using hi p2 d2 by linarith
    ultimately show ?thesis by simp
  qed
qed

lemma double_value_powr:
  "double_value x = real (mantissa x) * 2 powr real_of_int (exponent x)"
proof (cases "0 \<le> exponent x")
  case True
  then have "2 powr real_of_int (exponent x) = (2::real) ^ nat (exponent x)"
    by (simp add: powr_realpow [symmetric])
  then show ?thesis using True by (simp add: double_value_def)
next
  case False
  then have "real_of_int (exponent x) = - real (nat (- exponent x))" by simp
  then have "2 powr real_of_int (exponent x) = 1 / (2::real) ^ nat (- exponent x)"
    by (simp add: powr_minus powr_realpow divide_inverse del: of_nat_nat)
  then show ?thesis using False by (simp add: double_value_def)
qed

lemma real_div_le:
  assumes "0 < d"
  shows "real (m div d) \<le> real m / real d"
proof -
  have "m div d * d \<le> m" by simp
  then have "real (m div d * d) \<le> real m" by (simp only: of_nat_le_iff)
  then show ?thesis using assms by (simp add: field_simps)
qed

text \<open>\<^verbatim>\<open>Math.floor\<close> does not exceed its argument.\<close>

lemma Math_floor_le: "real (Math_floor x) \<le> double_value x"
proof (cases "0 \<le> exponent x")
  case True
  then show ?thesis by (simp add: Math_floor_def double_value_def)
next
  case False
  have "real (mantissa x div 2 ^ nat (- exponent x)) \<le> real (mantissa x) / 2 ^ nat (- exponent x)"
    using real_div_le [of "2 ^ nat (- exponent x)" "mantissa x"] by simp
  then show ?thesis using False by (simp add: Math_floor_def double_value_def)
qed

text \<open>Rounding moves a significand up by half a unit at most.\<close>

lemma round_half_even_le:
  assumes "0 < sh"
  shows "real (round_half_even M sh) \<le> real M / 2 ^ sh + 1 / 2"
proof -
  let ?q = "M div 2 ^ sh" and ?r = "M mod 2 ^ sh"
  have "M = ?q * 2 ^ sh + ?r" by (rule div_mult_mod_eq [symmetric])
  then have "real M = real (?q * 2 ^ sh + ?r)" by simp
  then have M: "real M = real ?q * 2 ^ sh + real ?r" by simp
  have half: "(2::real) ^ sh = 2 * 2 ^ (sh - 1)"
    using assms by (cases sh) simp_all
  have q: "real ?q \<le> real M / 2 ^ sh"
    using M by (simp add: field_simps)
  show ?thesis
  proof (cases "2 ^ (sh - 1) < ?r \<or> (?r = 2 ^ (sh - 1) \<and> odd ?q)")
    case True
    then have "2 ^ (sh - 1) \<le> ?r" by auto
    then have "real (2 ^ (sh - 1)) \<le> real ?r" by (simp only: of_nat_le_iff)
    then have "real ?q * 2 ^ sh + 2 ^ (sh - 1) \<le> real M"
      using M by simp
    then have "real ?q + 1 / 2 \<le> real M / 2 ^ sh"
      using half by (simp add: field_simps)
    moreover have "round_half_even M sh = ?q + 1"
      using True assms by (auto simp: round_half_even_def)
    ultimately show ?thesis by simp
  next
    case False
    then have "round_half_even M sh = ?q"
      using assms by (auto simp: round_half_even_def)
    then show ?thesis using q by simp
  qed
qed

text \<open>The largest double below 1 is \<open>1 - 2\<^sup>-\<^sup>5\<^sup>3\<close>.\<close>

lemma double_below_one:
  assumes "is_double x" and "double_value x < 1"
  shows "double_value x \<le> 1 - 1 / 2 ^ 53"
proof (cases "0 \<le> exponent x")
  case True
  then have "real (mantissa x * 2 ^ nat (exponent x)) < real 1"
    using assms(2) by (simp add: double_value_def)
  then have "mantissa x * 2 ^ nat (exponent x) < 1" by (simp only: of_nat_less_iff)
  then have "mantissa x * 2 ^ nat (exponent x) = 0" by simp
  then show ?thesis using True by (simp add: double_value_def)
next
  case False
  let ?k = "nat (- exponent x)" and ?m = "mantissa x"
  have v: "double_value x = real ?m / 2 ^ ?k"
    using False by (simp add: double_value_def)
  have "real ?m / 2 ^ ?k < 1"
    using assms(2) v by simp
  then have "real ?m < 2 ^ ?k"
    by (simp add: pos_divide_less_eq)
  then have "real ?m < real (2 ^ ?k)" by simp
  then have mk: "?m < 2 ^ ?k" by (simp only: of_nat_less_iff)
  show ?thesis
  proof (cases "53 \<le> ?k")
    case True
    have "?m + 1 \<le> 2 ^ 53" using assms(1) by (simp add: is_double_def)
    then have "real (?m + 1) \<le> real (2 ^ 53)" by (simp only: of_nat_le_iff)
    then have m: "real ?m \<le> 2 ^ 53 - 1" by simp
    have p: "(2::real) ^ 53 \<le> 2 ^ ?k" using True by (intro power_increasing) simp_all
    have "real ?m / 2 ^ ?k \<le> (2 ^ 53 - 1) / 2 ^ ?k"
      using m by (simp add: divide_right_mono)
    also have "\<dots> \<le> (2 ^ 53 - 1) / 2 ^ 53"
      using p by (intro divide_left_mono) simp_all
    also have "\<dots> = 1 - 1 / 2 ^ 53" by (simp add: field_simps)
    finally show ?thesis using v by simp
  next
    case False
    have "?m + 1 \<le> 2 ^ ?k" using mk by simp
    then have "real (?m + 1) \<le> real (2 ^ ?k)" by (simp only: of_nat_le_iff)
    then have m: "real ?m \<le> 2 ^ ?k - 1" by simp
    have p: "(2::real) ^ ?k \<le> 2 ^ 53" using False by (intro power_increasing) simp_all
    have "real ?m / 2 ^ ?k \<le> (2 ^ ?k - 1) / 2 ^ ?k"
      using m by (simp add: divide_right_mono)
    also have "\<dots> = 1 - 1 / 2 ^ ?k" by (simp add: field_simps)
    also have "\<dots> \<le> 1 - 1 / 2 ^ 53"
      using p by (simp add: field_simps)
    finally show ?thesis using v by simp
  qed
qed

text \<open>The rounded product exceeds the exact one by a factor of \<open>1 + 2\<^sup>-\<^sup>5\<^sup>3\<close> at most.\<close>

lemma double_times_le:
  "double_value (double_times x n) \<le> double_value x * real n * (1 + 1 / 2 ^ 53)"
proof -
  let ?M = "mantissa x * n" and ?e = "exponent x"
  let ?sh = "bits ?M - 53"
  let ?P = "real ?M * 2 powr real_of_int ?e"
  have P: "?P = double_value x * real n"
    by (simp add: double_value_powr)
  have P0: "0 \<le> ?P" by simp
  show ?thesis
  proof (cases "?sh = 0")
    case True
    then have "double_value (double_times x n) = ?P"
      by (simp add: double_times_def Let_def double_value_powr round_half_even_def)
    moreover have "?P * 1 \<le> ?P * (1 + 1 / 2 ^ 53)"
      using P0 by (intro mult_left_mono) simp_all
    ultimately have "double_value (double_times x n) \<le> ?P * (1 + 1 / 2 ^ 53)"
      by simp
    then show ?thesis by (simp only: P)
  next
    case False
    then have sh: "0 < ?sh" by simp
    then have b: "bits ?M = ?sh + 53" by simp
    then have Mpos: "0 < ?M" by (cases "?M = 0") (simp_all add: bits.simps [of 0])
    have "2 ^ (bits ?M - 1) \<le> ?M" using bits_bounds [OF Mpos] by simp
    then have "2 ^ (?sh + 52) \<le> ?M" using b by simp
    then have "real (2 ^ (?sh + 52)) \<le> real ?M" by (simp only: of_nat_le_iff)
    then have low: "(2::real) ^ ?sh * 2 ^ 52 \<le> real ?M" by (simp add: power_add)
    have val: "double_value (double_times x n) =
        real (round_half_even ?M ?sh) * (2 ^ ?sh * 2 powr real_of_int ?e)"
      by (simp add: double_times_def Let_def double_value_powr powr_add powr_realpow mult.commute)
    have "real (round_half_even ?M ?sh) * (2 ^ ?sh * 2 powr real_of_int ?e)
        \<le> (real ?M / 2 ^ ?sh + 1 / 2) * (2 ^ ?sh * 2 powr real_of_int ?e)"
      using round_half_even_le [OF sh, of ?M] by (intro mult_right_mono) simp_all
    also have "\<dots> = ?P + 2 ^ ?sh / 2 * 2 powr real_of_int ?e"
      by (simp add: field_simps)
    also have "\<dots> \<le> ?P + real ?M / 2 ^ 53 * 2 powr real_of_int ?e"
    proof -
      have "(2::real) ^ ?sh / 2 = 2 ^ ?sh * 2 ^ 52 / 2 ^ 53" by simp
      also have "\<dots> \<le> real ?M / 2 ^ 53"
        by (rule divide_right_mono [OF low]) simp
      finally have h: "(2::real) ^ ?sh / 2 \<le> real ?M / 2 ^ 53" .
      have "2 ^ ?sh / 2 * 2 powr real_of_int ?e \<le> real ?M / 2 ^ 53 * 2 powr real_of_int ?e"
        by (rule mult_right_mono [OF h]) simp
      then show ?thesis by (rule add_left_mono)
    qed
    also have "\<dots> = ?P * (1 + 1 / 2 ^ 53)"
      by (simp add: field_simps)
    finally have "double_value (double_times x n) \<le> ?P * (1 + 1 / 2 ^ 53)"
      using val by simp
    then show ?thesis by (simp only: P)
  qed
qed

text \<open>
  \<^verbatim>\<open>Math.floor(Math.random() * n)\<close> is an index of an array of length \<open>n\<close>: the
  product of a double below 1 and \<open>n\<close>, rounded, stays below \<open>n\<close>.
\<close>

lemma random_index_in_range:
  assumes "is_double x" and "double_value x < 1" and "0 < n"
  shows "Math_floor (double_times x n) < n"
proof -
  have "real (Math_floor (double_times x n)) \<le> double_value (double_times x n)"
    by (rule Math_floor_le)
  also have "\<dots> \<le> double_value x * real n * (1 + 1 / 2 ^ 53)"
    by (rule double_times_le)
  also have "\<dots> \<le> (1 - 1 / 2 ^ 53) * real n * (1 + 1 / 2 ^ 53)"
    using double_below_one [OF assms(1,2)] by (intro mult_right_mono) simp_all
  also have "\<dots> < real n"
    using assms(3) by (simp add: field_simps)
  finally show ?thesis by simp
qed

section \<open>Reset\<close>

text \<open>
  C7: in every state, after \<^verbatim>\<open>resetGame\<close> the position is the standard starting
  position, and the selection, the legal destinations, the move history, both
  captured-piece ledgers and the analysis text are empty. There is no precondition.
\<close>

theorem resetGame_clears:
  "game (resetGame s) = \<lparr>fen = DEFAULT_POSITION, history = []\<rparr>
   \<and> Chess_history (game (resetGame s)) = []
   \<and> selectedSquare (resetGame s) = None
   \<and> validMoves (resetGame s) = []
   \<and> capturedByWhite (resetGame s) = []
   \<and> capturedByBlack (resetGame s) = []
   \<and> aiAnalysis (resetGame s) = None"
  by (simp add: resetGame_def new_Chess_def Chess_history_def)

section \<open>Refused moves\<close>

text \<open>
  C3: when the engine refuses the move (an illegal pair of squares, or a string it
  does not recognise), \<^verbatim>\<open>makeMove\<close> returns false and the state is the one before
  the call: position, history, ledgers and selection are untouched.
\<close>

theorem makeMove_illegal_no_change:
  assumes "rules_move E (fen g) moveData = None"
  shows "makeMove E g s moveData = (False, s)"
  using assms by (rule makeMove_refused)

lemma demo_refuses_Zz9: "rules_move demo (fen (game initial_App)) (San ''Zz9'') = None"
  by code_simp

theorem makeMove_illegal_no_change_witness:
  "rules_move demo (fen (game initial_App)) (San ''Zz9'') = None
   \<and> makeMove demo (game initial_App) initial_App (San ''Zz9'') = (False, initial_App)"
  using makeMove_illegal_no_change [OF demo_refuses_Zz9, of initial_App] demo_refuses_Zz9
  by simp

section \<open>The selection invariant\<close>

lemma selection_ok_None: "selectedSquare s = None \<Longrightarrow> selection_ok E s"
  by (simp add: selection_ok_def)

lemma selection_ok_thinking [simp]:
  "selection_ok E (s\<lparr>isAiThinking := b\<rparr>) = selection_ok E s"
  by (simp add: selection_ok_def Chess_get_def Chess_turn_def cong: option.case_cong)

lemma selection_ok_analysis [simp]:
  "selection_ok E (s\<lparr>aiAnalysis := a\<rparr>) = selection_ok E s"
  by (simp add: selection_ok_def Chess_get_def Chess_turn_def cong: option.case_cong)

lemma selection_ok_makeMove:
  "selection_ok E s \<Longrightarrow> selection_ok E (snd (makeMove E g s d))"
  using makeMove_cases [of E g s d] by (auto simp: selection_ok_None)

lemma selection_ok_selectPiece: "selection_ok E (selectPiece E s square)"
  by (simp add: selectPiece_def selection_ok_def Chess_get_def Chess_turn_def
      split: option.splits)

lemma selection_ok_onSquareClick:
  assumes ok: "selection_ok E s"
  shows "selection_ok E (onSquareClick E s square)"
proof (cases "isGameOver E (game s) \<or> isAiThinking s")
  case True
  then show ?thesis using ok by (simp add: onSquareClick_def)
next
  case False
  show ?thesis
  proof (cases "selectedSquare s")
    case None
    then show ?thesis using False
      by (simp add: onSquareClick_def selection_ok_selectPiece)
  next
    case (Some sel)
    note sel = this
    show ?thesis
    proof (cases "rules_move E (fen (game s)) (Coords sel square (Some ''q''))")
      case None
      then show ?thesis using False sel
        by (simp add: onSquareClick_def makeMove_refused selection_ok_selectPiece
            selection_ok_None)
    next
      case (Some r)
      then obtain m f' where "r = (m, f')" by (cases r)
      then show ?thesis using False sel Some
        by (simp add: onSquareClick_def makeMove_accepted selection_ok_selectPiece
            selection_ok_None)
    qed
  qed
qed

lemma selection_ok_undoMove: "selection_ok E s \<Longrightarrow> selection_ok E (undoMove s)"
  by (simp add: undoMove_eq selection_ok_def Chess_get_def Chess_turn_def
      cong: option.case_cong)

lemma selection_ok_resetGame: "selection_ok E (resetGame s)"
  by (simp add: resetGame_def selection_ok_None)

lemma selection_ok_aiBegin: "selection_ok E s \<Longrightarrow> selection_ok E (aiBegin s)"
  by (simp add: aiBegin_def)

lemma selection_ok_aiReply: "selection_ok E s \<Longrightarrow> selection_ok E (fst (aiReply s reply))"
  by (simp add: aiReply_def split: outcome.splits)

lemma selection_ok_aiTimeout:
  assumes "selection_ok E s"
  shows "selection_ok E (aiTimeout E g s aiMove x)"
proof (cases "makeMove E g s (San aiMove)")
  case (Pair ok s1)
  have s1: "selection_ok E s1"
    using selection_ok_makeMove [OF assms, of g "San aiMove"] Pair by simp
  show ?thesis
  proof (cases ok)
    case True
    then show ?thesis using Pair s1
      by (simp add: aiTimeout_def)
  next
    case False
    let ?s2 = "s1\<lparr>aiAnalysis := Some ''AI suggested an illegal move. Fallback logic triggered.''\<rparr>"
    have s2: "selection_ok E ?s2" using s1 by simp
    have "selection_ok E (snd (makeMove E g ?s2 d))" for d
      by (rule selection_ok_makeMove [OF s2])
    then show ?thesis using Pair False s2
      by (simp add: aiTimeout_def Let_def)
  qed
qed

lemma selection_ok_triggerAiMove:
  assumes "selection_ok E s"
  shows "selection_ok E (triggerAiMove E s reply x)"
proof (cases "isGameOver E (game s) \<or> isAiThinking s")
  case True
  then show ?thesis using assms by (simp add: triggerAiMove_def)
next
  case False
  have r: "selection_ok E (fst (aiReply (aiBegin s) reply))"
    by (rule selection_ok_aiReply [OF selection_ok_aiBegin [OF assms]])
  show ?thesis
  proof (cases "aiReply (aiBegin s) reply")
    case (Pair s' mv)
    then show ?thesis using False r
      by (cases mv) (simp_all add: triggerAiMove_def selection_ok_aiTimeout)
  qed
qed

text \<open>
  C8: after every operation of the controller (a click on a square, a move applied,
  undo, reset, the AI move and each of its steps), a selected square holds a piece of
  the side to move in the current position. It holds in the initial state and every
  operation keeps it, so it holds in every reachable state.
\<close>

theorem selection_invariant:
  assumes "reachable E s"
  shows "selection_ok E s"
  using assms
proof (induction rule: reachable.induct)
  case start
  show ?case by (simp add: initial_App_def selection_ok_None)
next
  case (click s square)
  then show ?case by (simp add: selection_ok_onSquareClick)
next
  case (apply_move s moveData)
  then show ?case by (simp add: selection_ok_makeMove)
next
  case (undo s)
  then show ?case by (simp add: selection_ok_undoMove)
next
  case (reset s)
  show ?case by (rule selection_ok_resetGame)
next
  case (ai_move s reply x)
  then show ?case by (simp add: selection_ok_triggerAiMove)
next
  case (ai_begin s)
  then show ?case by (simp add: selection_ok_aiBegin)
next
  case (ai_reply s reply)
  then show ?case by (simp add: selection_ok_aiReply)
next
  case (ai_timer s0 s aiMove x)
  then show ?case by (simp add: selection_ok_aiTimeout)
qed

lemma demo_click_e2:
  "onSquareClick demo initial_App ''e2'' =
     initial_App\<lparr>selectedSquare := Some ''e2'', validMoves := [''e3'', ''e4'']\<rparr>"
  by code_simp

theorem selection_invariant_witness:
  "reachable demo (onSquareClick demo initial_App ''e2'')
   \<and> selectedSquare (onSquareClick demo initial_App ''e2'') = Some ''e2''
   \<and> selection_ok demo (onSquareClick demo initial_App ''e2'')"
  using selection_invariant [OF reachable.click [OF reachable.start], of demo "''e2''"]
    reachable.click [OF reachable.start, of demo "''e2''"] demo_click_e2
  by simp

section \<open>Captured pieces\<close>

text \<open>
  C6: an accepted move whose move object reports a captured piece appends exactly
  one entry to the ledger of the mover's colour (\<open>capturedByWhite\<close> for White,
  \<open>capturedByBlack\<close> for Black): the captured piece's type, in the opponent's
  colour. The other ledger is unchanged, and a move without a capture changes neither.
\<close>

theorem makeMove_capture_ledger:
  assumes "rules_move E (fen g) moveData = Some (m, f')"
  shows "fst (makeMove E g s moveData)
    \<and> capturedByWhite (snd (makeMove E g s moveData)) =
        capturedByWhite s @
          (case captured m of
             None \<Rightarrow> []
           | Some t \<Rightarrow> if color m = White then [\<lparr>ptype = t, pcolor = Black\<rparr>] else [])
    \<and> capturedByBlack (snd (makeMove E g s moveData)) =
        capturedByBlack s @
          (case captured m of
             None \<Rightarrow> []
           | Some t \<Rightarrow> if color m = White then [] else [\<lparr>ptype = t, pcolor = White\<rparr>])"
  using assms
  by (cases "captured m") (simp_all add: makeMove_accepted handleCapture_def)

text \<open>White's king on a1 takes the pawn on b2.\<close>

lemma demo_king_takes_pawn:
  "rules_move demo (fen (game (initial_App\<lparr>game := new_Chess_fen pawn_position\<rparr>)))
     (Coords ''a1'' ''b2'' (Some ''q'')) =
     Some (\<lparr>color = White, from_sq = ''a1'', to_sq = ''b2'', piece = King,
            captured = Some Pawn, promotion = None, san = ''Kxb2''\<rparr>,
           ''7k/8/8/8/8/8/1K6/8 b - - 0 1'')"
  by code_simp

theorem makeMove_capture_ledger_witness:
  "fst (makeMove demo (game (initial_App\<lparr>game := new_Chess_fen pawn_position\<rparr>))
         (initial_App\<lparr>game := new_Chess_fen pawn_position\<rparr>) (Coords ''a1'' ''b2'' (Some ''q'')))
   \<and> capturedByWhite
        (snd (makeMove demo (game (initial_App\<lparr>game := new_Chess_fen pawn_position\<rparr>))
               (initial_App\<lparr>game := new_Chess_fen pawn_position\<rparr>)
               (Coords ''a1'' ''b2'' (Some ''q'')))) = [\<lparr>ptype = Pawn, pcolor = Black\<rparr>]
   \<and> capturedByBlack
        (snd (makeMove demo (game (initial_App\<lparr>game := new_Chess_fen pawn_position\<rparr>))
               (initial_App\<lparr>game := new_Chess_fen pawn_position\<rparr>)
               (Coords ''a1'' ''b2'' (Some ''q'')))) = []"
  using makeMove_capture_ledger [OF demo_king_takes_pawn,
      of "initial_App\<lparr>game := new_Chess_fen pawn_position\<rparr>"]
  by (simp add: initial_App_def)

section \<open>Failures of the AI service\<close>

text \<open>
  C9: when the request to the AI service fails (the awaited promise is rejected)
  after the guard of \<^verbatim>\<open>triggerAiMove\<close> has let the request through, the failure is
  caught: the only changes to the state are the analysis text, which becomes
  "Error communicating with AI.", and the thinking flag, which is false afterwards.
  Position, history, ledgers and selection are as before.
\<close>

theorem triggerAiMove_service_failure:
  assumes "\<not> isGameOver E (game s)" and "\<not> isAiThinking s"
  shows "triggerAiMove E s Raised x =
           s\<lparr>isAiThinking := False, aiAnalysis := Some ''Error communicating with AI.''\<rparr>"
  using assms by (simp add: triggerAiMove_def aiReply_def aiBegin_def)

lemma demo_start_not_over: "\<not> isGameOver demo (game initial_App)"
  by code_simp

lemma initial_not_thinking: "\<not> isAiThinking initial_App"
  by (simp add: initial_App_def)

theorem triggerAiMove_service_failure_witness:
  "\<not> isGameOver demo (game initial_App) \<and> \<not> isAiThinking initial_App
   \<and> triggerAiMove demo initial_App Raised \<lparr>mantissa = 1, exponent = - 1\<rparr> =
       initial_App\<lparr>isAiThinking := False, aiAnalysis := Some ''Error communicating with AI.''\<rparr>"
  using triggerAiMove_service_failure [OF demo_start_not_over initial_not_thinking, of "\<lparr>mantissa = 1, exponent = - 1\<rparr>"]
    demo_start_not_over initial_not_thinking
  by simp

section \<open>An empty move from the advisor\<close>

text \<open>
  C10: when the advisor's result has the empty string as its move, neither the
  suggestion nor a random move is applied: position, history, ledgers and selection
  are unchanged. Only the analysis text (the notice that no move was found) and the
  thinking flag (false) are set.
\<close>

theorem triggerAiMove_empty_move:
  assumes "\<not> isGameOver E (game s)" and "\<not> isAiThinking s" and "move aiResponse = []"
  shows "triggerAiMove E s (Returned aiResponse) x =
           s\<lparr>isAiThinking := False, aiAnalysis := Some ''AI couldn't find a move.''\<rparr>"
  using assms by (simp add: triggerAiMove_def aiReply_def aiBegin_def)

theorem triggerAiMove_empty_move_witness:
  "\<not> isGameOver demo (game initial_App) \<and> \<not> isAiThinking initial_App
   \<and> triggerAiMove demo initial_App
        (Returned \<lparr>move = [], explanation = ''I couldn't calculate a move right now.''\<rparr>) \<lparr>mantissa = 1, exponent = - 1\<rparr> =
       initial_App\<lparr>isAiThinking := False, aiAnalysis := Some ''AI couldn't find a move.''\<rparr>"
  using triggerAiMove_empty_move [OF demo_start_not_over initial_not_thinking,
      of "\<lparr>move = [], explanation = ''I couldn't calculate a move right now.''\<rparr>" "\<lparr>mantissa = 1, exponent = - 1\<rparr>"]
    demo_start_not_over initial_not_thinking
  by simp

section \<open>Game over\<close>

text \<open>
  The claim C4 says that a move applied to a terminal position through the controller
  fails. \<^verbatim>\<open>makeMove\<close> does not ask whether the game is over: with the two bare kings
  the game is drawn, the king still has a legal move, and \<^verbatim>\<open>makeMove\<close> plays it.
\<close>

theorem makeMove_drawn_position_counterexample:
  "isDraw demo (new_Chess_fen kings_position)
   \<and> isGameOver demo (new_Chess_fen kings_position)
   \<and> fst (makeMove demo (new_Chess_fen kings_position)
         (initial_App\<lparr>game := new_Chess_fen kings_position\<rparr>) (Coords ''a1'' ''a2'' (Some ''q'')))
   \<and> fen (game (snd (makeMove demo (new_Chess_fen kings_position)
         (initial_App\<lparr>game := new_Chess_fen kings_position\<rparr>) (Coords ''a1'' ''a2'' (Some ''q''))))) =
       ''8/8/8/8/8/8/K1k5/8 b - - 1 1''"
  by code_simp

text \<open>
  C4, amended: in a terminal position (checkmate or draw), a click on a square and
  the AI move trigger change nothing. \<^verbatim>\<open>makeMove\<close> has no game-over check of its
  own: on such a position it fails, returning false with the state unchanged, exactly
  when the engine refuses the move.
\<close>

theorem game_over_gating:
  assumes "isCheckmate E (game s) \<or> isDraw E (game s)"
  shows "onSquareClick E s square = s
    \<and> triggerAiMove E s reply x = s
    \<and> (makeMove E (game s) s moveData = (False, s)) =
        (rules_move E (fen (game s)) moveData = None)"
proof -
  have over: "isGameOver E (game s)"
    using assms by (simp add: isGameOver_def)
  have mv: "(makeMove E (game s) s moveData = (False, s)) =
      (rules_move E (fen (game s)) moveData = None)"
  proof (cases "rules_move E (fen (game s)) moveData")
    case None
    then show ?thesis by (simp add: makeMove_refused)
  next
    case (Some r)
    then show ?thesis by (cases r) (simp add: makeMove_accepted)
  qed
  show ?thesis
    using over mv by (simp add: onSquareClick_def triggerAiMove_def)
qed

lemma demo_kings_drawn:
  "isCheckmate demo (game (initial_App\<lparr>game := new_Chess_fen kings_position\<rparr>))
   \<or> isDraw demo (game (initial_App\<lparr>game := new_Chess_fen kings_position\<rparr>))"
  by code_simp

lemma demo_kings_refuses:
  "rules_move demo (fen (game (initial_App\<lparr>game := new_Chess_fen kings_position\<rparr>)))
     (San ''Kb2'') = None"
  by code_simp

theorem game_over_gating_witness:
  "isDraw demo (game (initial_App\<lparr>game := new_Chess_fen kings_position\<rparr>))
   \<and> onSquareClick demo (initial_App\<lparr>game := new_Chess_fen kings_position\<rparr>) ''a1'' =
       initial_App\<lparr>game := new_Chess_fen kings_position\<rparr>
   \<and> triggerAiMove demo (initial_App\<lparr>game := new_Chess_fen kings_position\<rparr>)
        (Returned \<lparr>move = ''Ka2'', explanation = ''the only move''\<rparr>) \<lparr>mantissa = 1, exponent = - 1\<rparr> =
       initial_App\<lparr>game := new_Chess_fen kings_position\<rparr>
   \<and> makeMove demo (game (initial_App\<lparr>game := new_Chess_fen kings_position\<rparr>))
        (initial_App\<lparr>game := new_Chess_fen kings_position\<rparr>) (San ''Kb2'') =
       (False, initial_App\<lparr>game := new_Chess_fen kings_position\<rparr>)"
  using game_over_gating [OF demo_kings_drawn, of "''a1''"
      "Returned \<lparr>move = ''Ka2'', explanation = ''the only move''\<rparr>" "\<lparr>mantissa = 1, exponent = - 1\<rparr>" "San ''Kb2''"]
    demo_kings_drawn demo_kings_refuses
  by (simp add: isCheckmate_def demo_def)

section \<open>Fallback to a random legal move\<close>

lemma handleCapture_game [simp]: "game (handleCapture m s) = game s"
  by (simp add: handleCapture_def Let_def split: option.splits)

lemma handleCapture_aiAnalysis [simp]: "aiAnalysis (handleCapture m s) = aiAnalysis s"
  by (simp add: handleCapture_def Let_def split: option.splits)

text \<open>
  C5: in a position that is not terminal, when the advisor returns a non-empty move
  that the engine refuses, the analysis text becomes the fallback notice and the
  thinking flag is cleared. If the engine lists no legal move, nothing else changes.
  Otherwise a move of the list is played: the one at index
  \<^verbatim>\<open>Math.floor(Math.random() * n)\<close> of the \<open>n\<close> legal moves, computed in double
  arithmetic from the double \<open>x\<close> below 1 that \<^verbatim>\<open>Math.random()\<close> returns, and the new
  position is the engine's result for that move. The engine is assumed to accept the
  moves it lists. How \<^verbatim>\<open>Math.random()\<close> distributes its values is not part of the
  model.
\<close>

theorem triggerAiMove_fallback:
  assumes "\<not> isGameOver E (game s)" and "\<not> isAiThinking s"
    and "move aiResponse \<noteq> []"
    and "rules_move E (fen (game s)) (San (move aiResponse)) = None"
    and "is_double x" and "double_value x < 1"
    and "\<forall>mv \<in> set (Chess_moves E (game s)). rules_move E (fen (game s)) (San mv) \<noteq> None"
  shows "aiAnalysis (triggerAiMove E s (Returned aiResponse) x) =
           Some ''AI suggested an illegal move. Fallback logic triggered.''
    \<and> \<not> isAiThinking (triggerAiMove E s (Returned aiResponse) x)
    \<and> (if Chess_moves E (game s) = []
        then triggerAiMove E s (Returned aiResponse) x =
               s\<lparr>isAiThinking := False,
                 aiAnalysis := Some ''AI suggested an illegal move. Fallback logic triggered.''\<rparr>
        else Math_floor (double_times x (length (Chess_moves E (game s))))
               < length (Chess_moves E (game s))
          \<and> (\<exists>m f'. rules_move E (fen (game s))
                  (San (Chess_moves E (game s) !
                     Math_floor (double_times x (length (Chess_moves E (game s)))))) =
                  Some (m, f')
                \<and> game (triggerAiMove E s (Returned aiResponse) x) =
                    \<lparr>fen = f', history = [(m, fen (game s))]\<rparr>))"
proof (cases "Chess_moves E (game s) = []")
  case True
  then show ?thesis
    using assms(1-4)
    by (simp add: triggerAiMove_def aiReply_def aiBegin_def aiTimeout_def makeMove_refused)
next
  case False
  let ?ms = "Chess_moves E (game s)"
  let ?i = "Math_floor (double_times x (length ?ms))"
  have i: "?i < length ?ms"
    using False assms(5,6) by (simp add: random_index_in_range)
  then have "?ms ! ?i \<in> set ?ms"
    by simp
  then have "rules_move E (fen (game s)) (San (?ms ! ?i)) \<noteq> None"
    using assms(7) by blast
  then obtain m f' where acc: "rules_move E (fen (game s)) (San (?ms ! ?i)) = Some (m, f')"
    by (cases "rules_move E (fen (game s)) (San (?ms ! ?i))") auto
  show ?thesis
    using False i acc assms(1-4)
    by (simp add: triggerAiMove_def aiReply_def aiBegin_def aiTimeout_def makeMove_refused
        makeMove_accepted Let_def)
qed

lemma demo_lists_accepted:
  "\<forall>mv \<in> set (Chess_moves demo (game initial_App)).
     rules_move demo (fen (game initial_App)) (San mv) \<noteq> None"
  by code_simp

text \<open>
  The double nearest to 0.95. Its exact product with 20 lies just below 19 and rounds
  to 19.
\<close>

lemma x95_is_double: "is_double \<lparr>mantissa = 4278419646001971, exponent = - 52\<rparr>"
  by (simp add: is_double_def)

lemma x95_below_one: "double_value \<lparr>mantissa = 4278419646001971, exponent = - 52\<rparr> < 1"
  by (simp add: double_value_def)

lemma bits_product: "bits 85568392920039420 = 57"
  by (simp add: bits.simps)

lemma x95_times_20: "Math_floor (double_times \<lparr>mantissa = 4278419646001971, exponent = - 52\<rparr> 20) = 19"
  by (simp add: double_times_def Let_def bits_product round_half_even_def Math_floor_def)

lemma Zz9_not_empty: "move \<lparr>move = ''Zz9'', explanation = ''bad''\<rparr> \<noteq> []"
  by simp

lemma demo_refuses_Zz9': "rules_move demo (fen (game initial_App))
    (San (move \<lparr>move = ''Zz9'', explanation = ''bad''\<rparr>)) = None"
  by code_simp

lemma demo_start_moves:
  "Chess_moves demo (game initial_App) =
     [''a3'', ''a4'', ''b3'', ''b4'', ''c3'', ''c4'', ''d3'', ''d4'', ''e3'', ''e4'',
      ''f3'', ''f4'', ''g3'', ''g4'', ''h3'', ''h4'', ''Na3'', ''Nc3'', ''Nf3'', ''Nh3'']"
  by code_simp

lemma demo_start_count: "length (Chess_moves demo (game initial_App)) = 20"
  by (simp add: demo_start_moves)

lemma demo_start_nonempty: "Chess_moves demo (game initial_App) \<noteq> []"
  by (simp add: demo_start_moves)

lemma demo_start_last: "Chess_moves demo (game initial_App) ! 19 = ''Nh3''"
  by (simp add: demo_start_moves)

lemma demo_start_Nh3:
  "rules_move demo (fen (game initial_App)) (San ''Nh3'') =
     Some (\<lparr>color = White, from_sq = ''g1'', to_sq = ''h3'', piece = Knight, captured = None,
            promotion = None, san = ''Nh3''\<rparr>,
           ''rnbqkbnr/pppppppp/8/8/8/7N/PPPPPPPP/RNBQKB1R b KQkq - 1 1'')"
  by code_simp

theorem triggerAiMove_fallback_witness:
  "aiAnalysis (triggerAiMove demo initial_App (Returned \<lparr>move = ''Zz9'', explanation = ''bad''\<rparr>)
       \<lparr>mantissa = 4278419646001971, exponent = - 52\<rparr>) =
     Some ''AI suggested an illegal move. Fallback logic triggered.''
   \<and> \<not> isAiThinking (triggerAiMove demo initial_App
       (Returned \<lparr>move = ''Zz9'', explanation = ''bad''\<rparr>) \<lparr>mantissa = 4278419646001971, exponent = - 52\<rparr>)
   \<and> Math_floor (double_times \<lparr>mantissa = 4278419646001971, exponent = - 52\<rparr> (length (Chess_moves demo (game initial_App)))) = 19
   \<and> fen (game (triggerAiMove demo initial_App (Returned \<lparr>move = ''Zz9'', explanation = ''bad''\<rparr>)
       \<lparr>mantissa = 4278419646001971, exponent = - 52\<rparr>)) =
       ''rnbqkbnr/pppppppp/8/8/8/7N/PPPPPPPP/RNBQKB1R b KQkq - 1 1''"
  using triggerAiMove_fallback [OF demo_start_not_over initial_not_thinking Zz9_not_empty
      demo_refuses_Zz9' x95_is_double x95_below_one demo_lists_accepted]
  by (auto simp: demo_start_count demo_start_nonempty x95_times_20 demo_start_last demo_start_Nh3)

section \<open>Undo\<close>

lemma undoMove_fen: "fen (game (undoMove s)) = fen (game s)"
  by (simp add: undoMove_eq)

text \<open>
  \<^verbatim>\<open>makeMove\<close> loads its copy from the FEN string too, so the \<^verbatim>\<open>game\<close> it
  installs remembers the last move only.
\<close>

lemma makeMove_history:
  "fst (makeMove E g s d) \<Longrightarrow> length (history (game (snd (makeMove E g s d)))) = 1"
  by (cases "rules_move E (fen g) d") (auto simp: makeMove_refused makeMove_accepted)

text \<open>
  C1: from the initial state, the move e4 is accepted; \<^verbatim>\<open>undoMove\<close> after it leaves
  the position after 1.e4 on the board, where the claim says that undo returns to the
  position before the move (here the starting position). The history is emptied and
  the analysis text is cleared.
\<close>

theorem undoMove_after_e4:
  "fst (makeMove demo (game initial_App) initial_App (San ''e4''))
   \<and> fen (game (snd (makeMove demo (game initial_App) initial_App (San ''e4'')))) =
       ''rnbqkbnr/pppppppp/8/8/4P3/8/PPPP1PPP/RNBQKBNR b KQkq - 0 1''
   \<and> fen (game (undoMove (snd (makeMove demo (game initial_App) initial_App (San ''e4''))))) =
       ''rnbqkbnr/pppppppp/8/8/4P3/8/PPPP1PPP/RNBQKBNR b KQkq - 0 1''
   \<and> history (game (undoMove (snd (makeMove demo (game initial_App) initial_App (San ''e4''))))) = []
   \<and> aiAnalysis (undoMove (snd (makeMove demo (game initial_App) initial_App (San ''e4'')))) = None
   \<and> fen (game initial_App) = ''rnbqkbnr/pppppppp/8/8/8/8/PPPPPPPP/RNBQKBNR w KQkq - 0 1''"
  by code_simp

section \<open>Malformed replies of the AI service\<close>

lemma trim_json: \<open>trim (js ''{"move":"e4"}'') = js ''{"move":"e4"}''\<close>
  by (simp add: trim_def js_def is_js_space_def)

text \<open>
  A reply wrapped in white space that is not ASCII (a byte order mark and a no-break
  space in front, a line separator and an ideographic space behind).
\<close>

lemma trim_json_spaces:
  \<open>trim ([65279, 160] @ js ''{"move":"e4"}'' @ [8232, 12288]) = js ''{"move":"e4"}''\<close>
  by (simp add: trim_def js_def is_js_space_def)

lemma parse_json: \<open>JSON_parse (js ''{"move":"e4"}'') = Some (JObj [(js ''move'', JStr (js ''e4''))])\<close>
  by code_simp

text \<open>
  The claim C2 says that a reply which is JSON but lacks a required field gives the
  sentinel. The reply \<^verbatim>\<open>{"move":"e4"}\<close> has no \<^verbatim>\<open>explanation\<close>; it parses, and
  \<^verbatim>\<open>getBestMove\<close> returns the parsed object as it is, also when white space
  surrounds it.
\<close>

theorem getBestMove_missing_field_counterexample:
  \<open>getBestMove JSON_parse (Returned (Some (js ''{"move":"e4"}''))) =
     Returned (JObj [(js ''move'', JStr (js ''e4''))])
   \<and> getBestMove JSON_parse (Returned (Some (js ''{"move":"e4"}''))) \<noteq>
       Returned (JObj [(js ''move'', JStr []),
         (js ''explanation'', JStr (js ''I couldn't calculate a move right now.''))])
   \<and> getBestMove JSON_parse
        (Returned (Some ([65279, 160] @ js ''{"move":"e4"}'' @ [8232, 12288]))) =
     Returned (JObj [(js ''move'', JStr (js ''e4''))])\<close>
  by (simp only: getBestMove_def outcome.case option.case Let_def trim_json trim_json_spaces
      parse_json)
    (simp add: js_def)

text \<open>
  C2, amended: for every reply that carries a text which \<^verbatim>\<open>JSON.parse\<close> rejects
  (after trimming), \<^verbatim>\<open>getBestMove\<close> returns the sentinel, whose move is the empty
  string and whose explanation is the apology text; and for no reply text does it
  raise. A text that parses is returned as parsed, whatever its shape. A reply without
  any text is outside the claim: \<^verbatim>\<open>response.text.trim()\<close> then throws before the
  \<^verbatim>\<open>try\<close>, and the promise is rejected.
\<close>

theorem getBestMove_not_json:
  assumes "parse (trim text) = None"
  shows "getBestMove parse (Returned (Some text)) =
           Returned (JObj [(js ''move'', JStr []),
             (js ''explanation'', JStr (js ''I couldn't calculate a move right now.''))])
    \<and> js ''I couldn't calculate a move right now.'' \<noteq> []
    \<and> getBestMove parse (Returned (Some text')) \<noteq> Raised
    \<and> getBestMove parse (Returned (Some text')) =
        Returned (case parse (trim text') of
                    Some v \<Rightarrow> v
                  | None \<Rightarrow>
                      JObj [(js ''move'', JStr []),
                        (js ''explanation'', JStr (js ''I couldn't calculate a move right now.''))])
    \<and> getBestMove parse (Returned None) = Raised"
  using assms by (simp add: getBestMove_def js_def split: option.splits)

text \<open>Prose behind a no-break space: the space is trimmed, and what is left is not JSON.\<close>

lemma trim_prose: "trim (160 # js ''I would play e4 here.'') = js ''I would play e4 here.''"
  by (simp add: trim_def js_def is_js_space_def)

lemma parse_prose: "JSON_parse (js ''I would play e4 here.'') = None"
  by code_simp

lemma prose_is_not_json: "JSON_parse (trim (160 # js ''I would play e4 here.'')) = None"
  by (simp add: trim_prose parse_prose)

theorem getBestMove_not_json_witness:
  "JSON_parse (trim (160 # js ''I would play e4 here.'')) = None
   \<and> getBestMove JSON_parse (Returned (Some (160 # js ''I would play e4 here.''))) =
       Returned (JObj [(js ''move'', JStr []),
         (js ''explanation'', JStr (js ''I couldn't calculate a move right now.''))])"
  using getBestMove_not_json [of JSON_parse "160 # js ''I would play e4 here.''"
      "160 # js ''I would play e4 here.''", OF prose_is_not_json] prose_is_not_json
  by simp

end
